theory Spec2Isabelle
  imports Main "HOL-Library.Word"
begin

section \<open>JavaScript strings and the built-ins the program calls\<close>

text \<open>
  A JavaScript string is a sequence of UTF-16 code units. String literals of the source
  are ASCII; \<open>js\<close> turns an Isabelle literal into code units.
\<close>

type_synonym jschar = "16 word"
type_synonym jsstring = "jschar list"

definition js :: "string \<Rightarrow> jsstring" where
  "js s = map of_char s"

definition SPACE :: jschar where "SPACE = 0x20"
definition COLON :: jschar where "COLON = 0x3A"
definition EXCL :: jschar where "EXCL = 0x21"
definition BACKSLASH :: jschar where "BACKSLASH = 0x5C"
definition SLASH :: jschar where "SLASH = 0x2F"
definition NEWLINE :: jschar where "NEWLINE = 0x0A"
definition TAB :: jschar where "TAB = 0x09"
definition APOS :: jschar where "APOS = 0x27"
definition DQUOTE :: jschar where "DQUOTE = 0x22"

text \<open>
  The code units \<open>String.prototype.trim\<close> strips: the WhiteSpace and LineTerminator
  productions of ECMAScript (TAB, LF, VT, FF, CR, SP, NBSP, the Unicode space separators,
  LS, PS and the byte order mark). All of them are single code units.
\<close>

definition isWhiteSpace :: "jschar \<Rightarrow> bool" where
  "isWhiteSpace c = (c \<in> set [0x9, 0xA, 0xB, 0xC, 0xD, 0x20, 0xA0, 0x1680,
     0x2000, 0x2001, 0x2002, 0x2003, 0x2004, 0x2005, 0x2006, 0x2007, 0x2008, 0x2009, 0x200A,
     0x2028, 0x2029, 0x202F, 0x205F, 0x3000, 0xFEFF])"

definition trim :: "jsstring \<Rightarrow> jsstring" where
  "trim s = rev (dropWhile isWhiteSpace (rev (dropWhile isWhiteSpace s)))"

definition startsWith :: "jsstring \<Rightarrow> jsstring \<Rightarrow> bool" where
  "startsWith s p = (take (length p) s = p)"

text \<open>\<open>s.substring(n)\<close> with one argument: everything from index \<open>n\<close> on.\<close>

definition substring :: "jsstring \<Rightarrow> nat \<Rightarrow> jsstring" where
  "substring s n = drop n s"

text \<open>
  \<open>s.split(sep)\<close> for a separator of one code unit (the program only uses
  \<open>' '\<close>, \<open>':'\<close> and \<open>'!'\<close>). The result is never the empty array:
  \<open>"".split(" ")\<close> is \<open>[""]\<close>.
\<close>

fun split :: "jsstring \<Rightarrow> jschar \<Rightarrow> jsstring list" where
  "split [] sep = [[]]"
| "split (c # cs) sep =
     (if c = sep then [] # split cs sep
      else (case split cs sep of [] \<Rightarrow> [[c]] | t # ts \<Rightarrow> (c # t) # ts))"

text \<open>\<open>xs[0]\<close> and \<open>xs.pop()\<close>: \<open>undefined\<close> (here \<open>None\<close>) on the empty array.\<close>

definition index0 :: "'a list \<Rightarrow> 'a option" where
  "index0 xs = (case xs of [] \<Rightarrow> None | x # _ \<Rightarrow> Some x)"

definition pop :: "'a list \<Rightarrow> 'a option" where
  "pop xs = (if xs = [] then None else Some (last xs))"

text \<open>\<open>!v\<close> for a value of type \<open>string | undefined\<close>: true on \<open>undefined\<close> and on \<open>""\<close>.\<close>

definition falsy :: "jsstring option \<Rightarrow> bool" where
  "falsy v = (case v of None \<Rightarrow> True | Some s \<Rightarrow> s = [])"

text \<open>The string conversion of a value of type \<open>string | undefined\<close>.\<close>

definition ToString :: "jsstring option \<Rightarrow> jsstring" where
  "ToString v = (case v of None \<Rightarrow> js ''undefined'' | Some s \<Rightarrow> s)"

text \<open>
  The narrowing done by \<open>if (!v) return ...\<close>: past the test, \<open>v\<close> is a non-empty
  string.
\<close>

definition truthy :: "jsstring option \<Rightarrow> jsstring option" where
  "truthy v = (if falsy v then None else v)"

text \<open>\<open>s.replaceAll(a, b)\<close> for patterns of one code unit.\<close>

definition replaceAll :: "jsstring \<Rightarrow> jschar \<Rightarrow> jschar \<Rightarrow> jsstring" where
  "replaceAll s a b = map (\<lambda>c. if c = a then b else c) s"

text \<open>\<open>xs.join(sep)\<close> on an array of strings.\<close>

fun join :: "jsstring list \<Rightarrow> jsstring \<Rightarrow> jsstring" where
  "join [] sep = []"
| "join [x] sep = x"
| "join (x # y # ys) sep = x @ sep @ join (y # ys) sep"

text \<open>
  A thrown \<open>Error\<close> object, by its \<open>name\<close> and \<open>message\<close>, and
  \<open>Error.prototype.toString\<close>.
\<close>

datatype jserror = JSError (err_name: jsstring) (err_message: jsstring)

definition Error_toString :: "jserror \<Rightarrow> jsstring" where
  "Error_toString e =
     (if err_name e = [] then err_message e
      else if err_message e = [] then err_name e
      else err_name e @ js '': '' @ err_message e)"

subsection \<open>Plain objects used as dictionaries\<close>

text \<open>
  \<open>hosts\<close> is created as \<open>{}\<close>: an ordinary object whose prototype is
  \<open>Object.prototype\<close>. Its own properties are kept here in creation order. The
  \<open>in\<close> operator and a property read both follow the prototype chain, so they also
  see the properties of \<open>Object.prototype\<close>.
\<close>

type_synonym 'v jsobject = "(jsstring \<times> 'v) list"

definition Object_prototype_keys :: "jsstring list" where
  "Object_prototype_keys = map js
     [''constructor'', ''toString'', ''toLocaleString'', ''valueOf'', ''hasOwnProperty'',
      ''isPrototypeOf'', ''propertyIsEnumerable'', ''__defineGetter__'', ''__defineSetter__'',
      ''__lookupGetter__'', ''__lookupSetter__'', ''__proto__'']"

definition js_in :: "jsstring \<Rightarrow> 'v jsobject \<Rightarrow> bool" where
  "js_in k obj = (k \<in> set (map fst obj) \<or> k \<in> set Object_prototype_keys)"

text \<open>
  The value of \<open>obj[k]\<close>: an own property, a member of \<open>Object.prototype\<close> (a function,
  or for \<open>__proto__\<close> the prototype object itself), or \<open>undefined\<close>.
\<close>

datatype 'v jsproperty = Own 'v | Inherited | Undefined

definition js_get :: "'v jsobject \<Rightarrow> jsstring \<Rightarrow> 'v jsproperty" where
  "js_get obj k =
     (case map_of obj k of
        Some v \<Rightarrow> Own v
      | None \<Rightarrow> if k \<in> set Object_prototype_keys then Inherited else Undefined)"

text \<open>
  Property enumeration (\<open>Object.keys\<close>, \<open>for ... in\<close>) lists the own keys that are
  array indices first, in ascending numeric order, then the other keys in creation order.
  The members of \<open>Object.prototype\<close> are not enumerable.
\<close>

definition isDigit :: "jschar \<Rightarrow> bool" where
  "isDigit c = (0x30 \<le> c \<and> c \<le> 0x39)"

definition decimal :: "jsstring \<Rightarrow> nat" where
  "decimal k = foldl (\<lambda>n c. 10 * n + (unat c - 0x30)) 0 k"

definition isArrayIndex :: "jsstring \<Rightarrow> bool" where
  "isArrayIndex k =
     (k \<noteq> [] \<and> list_all isDigit k \<and> (k = [0x30] \<or> take 1 k \<noteq> [0x30]) \<and> decimal k < 2 ^ 32 - 1)"

definition Object_keys :: "'v jsobject \<Rightarrow> jsstring list" where
  "Object_keys obj =
     sort_key decimal (filter isArrayIndex (map fst obj)) @
     filter (\<lambda>k. \<not> isArrayIndex k) (map fst obj)"

section \<open>common/result.ts\<close>

datatype ('t, 'e) Result = Ok 't | Err 'e jsstring bool

definition Err' :: "'e \<Rightarrow> jsstring \<Rightarrow> ('t, 'e) Result" where
  "Err' error reason = Err error reason False"

section \<open>The environment\<close>

text \<open>
  What the \<open>ssh-config\<close> parser returns: a list of lines, each a comment or a
  directive with \<open>param\<close> and \<open>value\<close>; a section (\<open>Host\<close>, \<open>Match\<close>)
  is a directive that also has a \<open>config\<close>, the list of its nested lines. A value is a
  string, or an array when the directive has several values.
\<close>

datatype jsvalue = Str jsstring | NonString "jsstring list"

datatype line =
    Comment jsstring
  | Directive jsstring jsvalue "line list option"

datatype GitConfigLocation = Local | Global

text \<open>What a run does to the outside, in order: lines logged and git configuration writes attempted.\<close>

datatype event =
    Log jsstring
  | LogError jserror
  | GitConfig GitConfigLocation jsstring jsstring

text \<open>
  The collaborators outside the repository: the \<open>git\<close> and \<open>ssh\<close> commands run through
  the shell (a command that throws gives its error), the file system, and the library
  functions \<open>expandTilde\<close>, \<open>SSHConfig.parse\<close>, \<open>JSON.stringify\<close>, the string
  conversion of a non-string value, and the text of a \<open>ZodError\<close> (which depends on the
  \<open>HostName\<close> and \<open>User\<close> it found).
\<close>

record env =
  git_rev_parse :: "jserror option"
  git_remote_origin_url :: "jserror + jsstring"
  git_config :: "GitConfigLocation \<Rightarrow> jsstring \<Rightarrow> jsstring \<Rightarrow> jserror option"
  ssh_T :: "jsstring \<Rightarrow> jserror + jsstring"
  expandTilde :: "jsstring \<Rightarrow> jsstring"
  fs_exists :: "jsstring \<Rightarrow> bool"
  fs_readFile :: "jsstring \<Rightarrow> jserror + jsstring"
  SSHConfig_parse :: "jsstring \<Rightarrow> jserror + line list"
  JSON_stringify :: "jsvalue \<Rightarrow> jsstring"
  String_of :: "jsvalue \<Rightarrow> jsstring"
  ZodError_toString :: "jsstring option \<Rightarrow> jsstring option \<Rightarrow> jsstring"

section \<open>common/ssh.ts\<close>

subsection \<open>getUsername\<close>

definition getUsername :: "env \<Rightarrow> jsstring \<Rightarrow> jsstring option \<times> event list" where
  "getUsername e sshHost =
     (case ssh_T e sshHost of
        Inl error \<Rightarrow> (None, [Log (js ''unable to get username due to''), LogError error])
      | Inr stdout \<Rightarrow>
          (let output = trim stdout in
           if startsWith output (js ''ssh: Could not resolve'') then (None, [Log output])
           else if startsWith output (js ''Hi '') then
             (let name = index0 (split (substring output (length (js ''Hi ''))) EXCL)
              in (name, []))
           else (None, [Log (js ''Unable to discern output ssh -T output format''), Log output])))"

subsection \<open>getSSHConfig\<close>

record SSHConfigSection =
  HostName :: jsstring
  User :: jsstring
  IdentityFile :: "jsstring option"
  AddKeysToAgent :: "jsstring option"
  IdentitiesOnly :: "jsstring option"

type_synonym SSHConfigHosts = "SSHConfigSection jsobject"

datatype GetSSHConfigError =
    SSHConfigFileMissingError
  | ParseError
  | DuplicateHostError
  | EntryNotAHostKeyValuePairError
  | MissingHostNameError
  | MissingUserError
  | MalformedError

text \<open>The string values of the enum, as a template literal prints them.\<close>

fun GetSSHConfigError_value :: "GetSSHConfigError \<Rightarrow> jsstring" where
  "GetSSHConfigError_value GetSSHConfigError.SSHConfigFileMissingError = js ''SSHConfigFileMissingError''"
| "GetSSHConfigError_value ParseError = js ''ParseError''"
| "GetSSHConfigError_value DuplicateHostError = js ''DupublicatHostError''"
| "GetSSHConfigError_value EntryNotAHostKeyValuePairError = js ''EntryNotAHostKeyValuePairError''"
| "GetSSHConfigError_value MissingHostNameError = js ''MissingHostNameError''"
| "GetSSHConfigError_value MissingUserError = js ''MissingUserError''"
| "GetSSHConfigError_value MalformedError = js ''MalformedError''"

text \<open>
  \<open>SSHConfigSectionSchema.safeParse(keyValues)\<close>. Every value of \<open>keyValues\<close> is a
  string, so the parse fails exactly when \<open>HostName\<close> or \<open>User\<close> is missing; keys
  outside the schema are dropped. \<open>keyValues\<close> is a map from the keys assigned so far
  (none of the five keys read here is a member of \<open>Object.prototype\<close>).
\<close>

definition SSHConfigSectionSchema_safeParse ::
  "(jsstring \<rightharpoonup> jsstring) \<Rightarrow> SSHConfigSection option" where
  "SSHConfigSectionSchema_safeParse keyValues =
     (case keyValues (js ''HostName'') of
        None \<Rightarrow> None
      | Some h \<Rightarrow>
          (case keyValues (js ''User'') of
             None \<Rightarrow> None
           | Some u \<Rightarrow>
               Some \<lparr>HostName = h, User = u,
                     IdentityFile = keyValues (js ''IdentityFile''),
                     AddKeysToAgent = keyValues (js ''AddKeysToAgent''),
                     IdentitiesOnly = keyValues (js ''IdentitiesOnly'')\<rparr>))"

text \<open>The inner loop \<open>for (const innerLine of line.config)\<close>.\<close>

fun keyValues_loop ::
  "env \<Rightarrow> jsstring \<Rightarrow> jsstring \<Rightarrow> (jsstring \<rightharpoonup> jsstring) \<Rightarrow> line list \<Rightarrow>
   (jsstring \<rightharpoonup> jsstring, GetSSHConfigError) Result" where
  "keyValues_loop e sshConfigPath host keyValues [] = Ok keyValues"
| "keyValues_loop e sshConfigPath host keyValues (Comment _ # rest) =
     keyValues_loop e sshConfigPath host keyValues rest"
| "keyValues_loop e sshConfigPath host keyValues (Directive innerParam innerValue _ # rest) =
     (case innerValue of
        NonString _ \<Rightarrow>
          Err' MalformedError
            (js ''ssh file '' @ [APOS] @ sshConfigPath @ [APOS] @ js '' at Host '' @ [APOS] @ host @ [APOS] @
             js '' at key '' @ [APOS] @ innerParam @ [APOS] @ js '' has non string value '' @ [APOS] @
             String_of e innerValue @ [APOS])
      | Str s \<Rightarrow> keyValues_loop e sshConfigPath host (keyValues(innerParam \<mapsto> s)) rest)"

text \<open>The outer loop \<open>for (const line of sshFile)\<close>, with \<open>hosts\<close> as built so far.\<close>

fun getSSHConfig_loop ::
  "env \<Rightarrow> jsstring \<Rightarrow> SSHConfigHosts \<Rightarrow> line list \<Rightarrow> (SSHConfigHosts, GetSSHConfigError) Result" where
  "getSSHConfig_loop e sshConfigPath hosts [] = Ok hosts"
| "getSSHConfig_loop e sshConfigPath hosts (Comment _ # rest) =
     getSSHConfig_loop e sshConfigPath hosts rest"
| "getSSHConfig_loop e sshConfigPath hosts (Directive curParam host cfg # rest) =
     (let valueStr = JSON_stringify e host in
      if curParam \<noteq> js ''Host'' then
        Err' EntryNotAHostKeyValuePairError
          (js ''Unexpected top-level entry in ssh file '' @ [APOS] @ sshConfigPath @ [APOS] @ js '': '' @
           curParam @ js ''='' @ valueStr)
      else
        (case host of
           NonString _ \<Rightarrow>
             Err' EntryNotAHostKeyValuePairError
               (js ''top-level Host '' @ curParam @ js '' has value of non string '' @ [APOS] @ valueStr @ [APOS])
         | Str host \<Rightarrow>
             (case cfg of
                None \<Rightarrow>
                  Err' EntryNotAHostKeyValuePairError
                    (js ''top-level non-section detected in ssh file '' @ [APOS] @ sshConfigPath @ [APOS] @
                     js '': '' @ curParam @ js ''='' @ valueStr)
              | Some config \<Rightarrow>
                  if js_in host hosts then
                    Err' DuplicateHostError
                      (js ''ssh file '' @ [APOS] @ sshConfigPath @ [APOS] @
                       js '' contains duplicate Hosts named '' @ [APOS] @ host @ [APOS])
                  else
                    (case keyValues_loop e sshConfigPath host Map.empty config of
                       Err error reason silent \<Rightarrow> Err error reason silent
                     | Ok keyValues \<Rightarrow>
                         (case SSHConfigSectionSchema_safeParse keyValues of
                            None \<Rightarrow>
                              Err' MalformedError
                                (js ''malformed section at Host '' @ [APOS] @ host @ [APOS] @ js '' due to '' @
                                 ZodError_toString e (keyValues (js ''HostName'')) (keyValues (js ''User'')))
                          | Some data \<Rightarrow>
                              getSSHConfig_loop e sshConfigPath (hosts @ [(host, data)]) rest)))))"

definition getSSHConfig ::
  "env \<Rightarrow> jsstring \<Rightarrow> (SSHConfigHosts, GetSSHConfigError) Result" where
  "getSSHConfig e sshConfigPathPartial =
     (let sshConfigPath = expandTilde e sshConfigPathPartial;
          sshFileExists = fs_exists e sshConfigPath
      in
      if \<not> sshFileExists then
        Err' GetSSHConfigError.SSHConfigFileMissingError (js ''No file found at '' @ sshConfigPath)
      else
        (case fs_readFile e sshConfigPath of
           Inl error \<Rightarrow>
             Err' ParseError
               (js ''unable to parse ssh file '' @ sshConfigPath @ [NEWLINE] @ Error_toString error)
         | Inr sshFileContent \<Rightarrow>
             (case SSHConfig_parse e sshFileContent of
                Inl error \<Rightarrow>
                  Err' ParseError
                    (js ''unable to parse ssh file '' @ sshConfigPath @ [NEWLINE] @ Error_toString error)
              | Inr sshFile \<Rightarrow> getSSHConfig_loop e sshConfigPath [] sshFile)))"

definition default_sshConfigPathPartial :: jsstring where
  "default_sshConfigPathPartial = js ''~/.ssh/config''"

section \<open>commands/git/setup.ts\<close>

definition prefix_of :: "GitConfigLocation \<Rightarrow> jsstring" where
  "prefix_of location = (case location of Local \<Rightarrow> js '' (local)'' | Global \<Rightarrow> js ''(global)'')"

definition setGitValue ::
  "env \<Rightarrow> jsstring \<Rightarrow> jsstring \<Rightarrow> GitConfigLocation \<Rightarrow> (bool, bool) Result \<times> event list" where
  "setGitValue e k v location =
     (case git_config e location k v of
        None \<Rightarrow>
          (Ok True, [GitConfig location k v, Log (prefix_of location @ js '' '' @ k @ js ''='' @ v)])
      | Some error \<Rightarrow>
          (let errorStr =
                 js ''unable to set git config key of '' @ [DQUOTE] @ k @ [DQUOTE] @ js '' to '' @
                 [DQUOTE] @ v @ [DQUOTE] @ js '' due to'' @ [NEWLINE] @ Error_toString error
           in (Err' False errorStr, [GitConfig location k v, Log errorStr])))"

definition isGitRepository :: "env \<Rightarrow> bool \<times> event list" where
  "isGitRepository e =
     (case git_rev_parse e of
        None \<Rightarrow> (True, [])
      | Some error \<Rightarrow> (False, [LogError error]))"

definition getGitRemoteOrigin :: "env \<Rightarrow> jsstring option" where
  "getGitRemoteOrigin e =
     (case git_remote_origin_url e of
        Inl error \<Rightarrow> None
      | Inr result \<Rightarrow> Some (trim result))"

datatype GitSetupError =
    NotInGitDirectoryError
  | NoRemoteOriginError
  | RemoteOriginIsNotSSHError
  | SSHConfigFileMissingError
  | SSHConfigFileMalformedError
  | SSHConfigHostMissingError
  | SSHPubkeyMissingError
  | SSHPubkeyMalformedError
  | SSHPubkeyNotAttachedToUserError

text \<open>
  \<open>gitSetup\<close> returns its result and the events of the run. \<open>Inl\<close> is an exception
  that leaves \<open>gitSetup\<close>: the read of the public key file is not inside a \<open>try\<close>.
  \<open>sshHost\<close> is only ever used as a string (a property key, a template, a shell
  argument), so its string conversion is taken where it is bound.
\<close>

definition gitSetup :: "env \<Rightarrow> (jserror + (bool, GitSetupError) Result) \<times> event list" where
  "gitSetup e =
     (case isGitRepository e of (isRepo, t1) \<Rightarrow>
      if \<not> isRepo then
        (Inr (Err' NotInGitDirectoryError (js ''Current directory is not a Git repository.'')), t1)
      else
      (case truthy (getGitRemoteOrigin e) of
         None \<Rightarrow> (Inr (Err' NoRemoteOriginError (js ''No remote origin configured.'')), t1)
       | Some remoteOrigin \<Rightarrow>
      if \<not> startsWith remoteOrigin (js ''git@'') then
        (Inr (Err' RemoteOriginIsNotSSHError
           (js ''Remote origin '' @ [APOS] @ remoteOrigin @ [APOS] @ js '' isn't an ssh-based origin'')), t1)
      else
      (let sshHost = ToString (index0 (split (substring remoteOrigin (length (js ''git@''))) COLON)) in
      (case getSSHConfig e default_sshConfigPathPartial of
         Err error reason silent \<Rightarrow>
           (Inr (Err' SSHConfigFileMalformedError (GetSSHConfigError_value error @ js '': '' @ reason)), t1)
       | Ok sshConfigFile \<Rightarrow>
      if \<not> js_in sshHost sshConfigFile then
        (let errorMsg =
               join ([js ''No existing ssh config entry for the origin remote host '' @ [APOS] @ sshHost @ [APOS],
                      js ''Existing Hosts are''] @ Object_keys sshConfigFile) [NEWLINE]
         in (Inr (Err' SSHConfigHostMissingError errorMsg), t1))
      else
      (case js_get sshConfigFile sshHost of
         Undefined \<Rightarrow>
           (Inl (JSError (js ''TypeError'') (js ''undefined is not an object'')), t1)
       | hostConfig \<Rightarrow>
      (case truthy (case hostConfig of Own section \<Rightarrow> IdentityFile section | _ \<Rightarrow> None) of
         None \<Rightarrow>
           (Inr (Err' SSHPubkeyMissingError
              (js ''No IdentityFile entry found for Host '' @ [APOS] @ sshHost @ [APOS])), t1)
       | Some hostConfig_IdentityFile \<Rightarrow>
      (let identityFile = expandTilde e hostConfig_IdentityFile;
           identityFilePath = identityFile @ js ''.pub'' in
      if \<not> fs_exists e identityFilePath then
        (Inr (Err' SSHPubkeyMissingError (js ''No such file exists '' @ identityFilePath)), t1)
      else
      (case fs_readFile e identityFilePath of
         Inl error \<Rightarrow> (Inl error, t1)
       | Inr content \<Rightarrow>
      (case truthy (pop (split (trim content) SPACE)) of
         None \<Rightarrow>
           (Inr (Err' SSHPubkeyMalformedError (js ''No email found in file '' @ identityFilePath)), t1)
       | Some email \<Rightarrow>
      (case getUsername e sshHost of (username, t2) \<Rightarrow>
      (case truthy username of
         None \<Rightarrow>
           (Inr (Err' SSHPubkeyNotAttachedToUserError
              (js ''Could not determine username. Check if pubkey at '' @ identityFilePath @
               js '' is saved in github as an AuthN key'')), t1 @ t2)
       | Some username \<Rightarrow>
      (let w1 = snd (setGitValue e (js ''commit.gpgsign'') (js ''true'') Global);
           w2 = snd (setGitValue e (js ''tag.gpgsign'') (js ''true'') Global);
           w3 = snd (setGitValue e (js ''gpg.format'') (js ''ssh'') Global);
           w4 = snd (setGitValue e (js ''user.signingkey'') (replaceAll identityFilePath BACKSLASH SLASH) Local);
           w5 = snd (setGitValue e (js ''user.name'') username Local);
           w6 = snd (setGitValue e (js ''user.email'') email Local)
       in (Inr (Ok True), t1 @ t2 @ w1 @ w2 @ w3 @ w4 @ w5 @ w6)))))))))))))"

section \<open>commands/git/hosts.ts\<close>

datatype ListGitHostsError = MalformedSSHConfigFile

text \<open>
  The loop \<open>for (const host in sshConfig.value)\<close> over the keys still to visit, with
  \<open>gitHosts\<close> as pushed so far. Every key visited is an own property.
\<close>

fun listHosts_loop :: "SSHConfigHosts \<Rightarrow> jsstring list \<Rightarrow> jsstring list \<Rightarrow> jsstring list" where
  "listHosts_loop sshConfig gitHosts [] = gitHosts"
| "listHosts_loop sshConfig gitHosts (host # rest) =
     (case js_get sshConfig host of
        Own hostConfig \<Rightarrow>
          if HostName hostConfig = js ''github.com''
          then listHosts_loop sshConfig (gitHosts @ [host]) rest
          else listHosts_loop sshConfig gitHosts rest
      | _ \<Rightarrow> listHosts_loop sshConfig gitHosts rest)"

definition listHosts :: "env \<Rightarrow> (bool, ListGitHostsError) Result \<times> event list" where
  "listHosts e =
     (case getSSHConfig e default_sshConfigPathPartial of
        Err error reason silent \<Rightarrow>
          (Err' MalformedSSHConfigFile (GetSSHConfigError_value error @ js '': '' @ reason), [])
      | Ok sshConfig \<Rightarrow>
          (let gitHosts = listHosts_loop sshConfig [] (Object_keys sshConfig)
           in (Ok True, Log (js ''Available hosts:'') # map (\<lambda>host. Log (js '' - '' @ host)) gitHosts)))"

section \<open>Observing a run\<close>

text \<open>The git configuration writes attempted during a run, in order.\<close>

fun writes :: "event list \<Rightarrow> (GitConfigLocation \<times> jsstring \<times> jsstring) list" where
  "writes [] = []"
| "writes (GitConfig location k v # t) = (location, k, v) # writes t"
| "writes (_ # t) = writes t"

section \<open>Example environments\<close>

definition example_sshFile :: "line list" where
  "example_sshFile =
     [Comment (js ''# accounts''),
      Directive (js ''Host'') (Str (js ''work''))
        (Some [Directive (js ''HostName'') (Str (js ''github.com'')) None,
               Directive (js ''User'') (Str (js ''git'')) None,
               Directive (js ''IdentityFile'') (Str (js ''~/.ssh/id_work'')) None]),
      Directive (js ''Host'') (Str (js ''lab''))
        (Some [Directive (js ''HostName'') (Str (js ''gitlab.com'')) None,
               Directive (js ''User'') (Str (js ''git'')) None]),
      Directive (js ''Host'') (Str (js ''personal''))
        (Some [Comment (js ''# second account''),
               Directive (js ''HostName'') (Str (js ''github.com'')) None,
               Directive (js ''User'') (Str (js ''git'')) None,
               Directive (js ''IdentityFile'') (Str (js ''~/.ssh/id_personal'')) None,
               Directive (js ''IdentitiesOnly'') (Str (js ''yes'')) None])]"

definition example_hosts :: SSHConfigHosts where
  "example_hosts =
     [(js ''work'', \<lparr>HostName = js ''github.com'', User = js ''git'',
         IdentityFile = Some (js ''~/.ssh/id_work''), AddKeysToAgent = None, IdentitiesOnly = None\<rparr>),
      (js ''lab'', \<lparr>HostName = js ''gitlab.com'', User = js ''git'',
         IdentityFile = None, AddKeysToAgent = None, IdentitiesOnly = None\<rparr>),
      (js ''personal'', \<lparr>HostName = js ''github.com'', User = js ''git'',
         IdentityFile = Some (js ''~/.ssh/id_personal''), AddKeysToAgent = None,
         IdentitiesOnly = Some (js ''yes'')\<rparr>)]"

definition example_pubkey :: jsstring where
  "example_pubkey = js ''ssh-ed25519 AAAAC3...  alice@example.com'' @ [NEWLINE]"

definition example_stdout :: jsstring where
  "example_stdout =
     js ''Hi bob! You've successfully authenticated, but GitHub does not provide shell access.'' @ [NEWLINE]"

definition example_env :: env where
  "example_env = \<lparr>
     git_rev_parse = None,
     git_remote_origin_url = Inr (js ''git@work:org/repo.git'' @ [NEWLINE]),
     git_config = (\<lambda>location k v. None),
     ssh_T = (\<lambda>sshHost. Inr example_stdout),
     expandTilde = (\<lambda>p. if startsWith p (js ''~'') then js ''/home/alice'' @ substring p 1 else p),
     fs_exists = (\<lambda>p. True),
     fs_readFile = (\<lambda>p. if p = js ''/home/alice/.ssh/config'' then Inr (js ''# accounts'') else Inr example_pubkey),
     SSHConfig_parse = (\<lambda>text. Inr example_sshFile),
     JSON_stringify = (\<lambda>v. js ''...''),
     String_of = (\<lambda>v. js ''...''),
     ZodError_toString = (\<lambda>h u. js ''Required'')
   \<rparr>"

definition probe_env :: "jsstring \<Rightarrow> env" where
  "probe_env stdout = example_env\<lparr>ssh_T := (\<lambda>sshHost. Inr stdout)\<rparr>"


definition pubkey_env :: "jsstring \<Rightarrow> env" where
  "pubkey_env content = example_env\<lparr>fs_readFile :=
     (\<lambda>p. if p = js ''/home/alice/.ssh/config'' then Inr (js ''# accounts'') else Inr content)\<rparr>"

definition tab_pubkey :: jsstring where
  "tab_pubkey = js ''ssh-ed25519 AAAAC3...'' @ [TAB] @ js ''alice@example.com'' @ [NEWLINE]"

definition origin_env :: "jsstring \<Rightarrow> env" where
  "origin_env url = example_env\<lparr>git_remote_origin_url := Inr url\<rparr>"

definition missing_config_env :: env where
  "missing_config_env = example_env\<lparr>fs_exists := (\<lambda>p. p \<noteq> js ''/home/alice/.ssh/config'')\<rparr>"

definition config_env :: "line list \<Rightarrow> env" where
  "config_env sshFile = example_env\<lparr>SSHConfig_parse := (\<lambda>text. Inr sshFile)\<rparr>"

definition dup_sshFile :: "line list" where
  "dup_sshFile = example_sshFile @
     [Directive (js ''Host'') (Str (js ''work''))
        (Some [Directive (js ''HostName'') (Str (js ''gitlab.com'')) None,
               Directive (js ''User'') (Str (js ''git'')) None]),
      Comment (js ''# end'')]"

definition malformed_first_sshFile :: "line list" where
  "malformed_first_sshFile =
     [Directive (js ''Host'') (Str (js ''work''))
        (Some [Directive (js ''User'') (Str (js ''git'')) None]),
      Directive (js ''Host'') (Str (js ''work''))
        (Some [Directive (js ''HostName'') (Str (js ''github.com'')) None,
               Directive (js ''User'') (Str (js ''git'')) None])]"

definition two_hostnames_sshFile :: "line list" where
  "two_hostnames_sshFile =
     [Directive (js ''Host'') (Str (js ''work''))
        (Some [Directive (js ''HostName'') (Str (js ''github.com'')) None,
               Directive (js ''HostName'') (Str (js ''example.org'')) None,
               Directive (js ''User'') (Str (js ''git'')) None])]"

definition constructor_sshFile :: "line list" where
  "constructor_sshFile =
     [Directive (js ''Host'') (Str (js ''constructor''))
        (Some [Directive (js ''HostName'') (Str (js ''github.com'')) None,
               Directive (js ''User'') (Str (js ''git'')) None])]"

section \<open>The spec's words, for comparison\<close>

text \<open>
  The last token of a text whose tokens are separated by whitespace (the spec's
  ``split on whitespace, and take the last token''), and the last token when only the space
  character separates.
\<close>

definition last_whitespace_token :: "jsstring \<Rightarrow> jsstring" where
  "last_whitespace_token s = rev (takeWhile (\<lambda>c. \<not> isWhiteSpace c) (rev s))"

definition last_space_token :: "jsstring \<Rightarrow> jsstring" where
  "last_space_token s = rev (takeWhile (\<lambda>c. c \<noteq> SPACE) (rev s))"

text \<open>
  The aliases a parsed document declares (the string values of its top-level \<open>Host\<close>
  lines, in document order), and the value a stanza declares for a key: that of the last
  nested line with this key.
\<close>

fun hostAliases :: "line list \<Rightarrow> jsstring list" where
  "hostAliases [] = []"
| "hostAliases (Comment _ # rest) = hostAliases rest"
| "hostAliases (Directive p v c # rest) =
     (case v of
        Str h \<Rightarrow> if p = js ''Host'' then h # hostAliases rest else hostAliases rest
      | NonString _ \<Rightarrow> hostAliases rest)"

fun declared :: "line list \<Rightarrow> jsstring \<Rightarrow> jsstring option" where
  "declared [] k = None"
| "declared (Comment _ # rest) k = declared rest k"
| "declared (Directive p v c # rest) k =
     (case declared rest k of
        Some s \<Rightarrow> Some s
      | None \<Rightarrow> (case v of Str s \<Rightarrow> if p = k then Some s else None | NonString _ \<Rightarrow> None))"

text \<open>
  A well-formed document: every top-level line is a comment or a \<open>Host\<close> section with a
  string alias whose nested lines are comments or directives with string values, \<open>HostName\<close>
  and \<open>User\<close> among them. \<open>declared_hosts\<close> is the mapping such a document declares.
\<close>

fun string_valued :: "line \<Rightarrow> bool" where
  "string_valued (Comment _) = True"
| "string_valued (Directive p (Str s) c) = True"
| "string_valued (Directive p (NonString vs) c) = False"

fun well_formed_stanza :: "line \<Rightarrow> bool" where
  "well_formed_stanza (Comment _) = True"
| "well_formed_stanza (Directive p (Str h) (Some cfg)) =
     (p = js ''Host'' \<and> list_all string_valued cfg \<and>
      declared cfg (js ''HostName'') \<noteq> None \<and> declared cfg (js ''User'') \<noteq> None)"
| "well_formed_stanza (Directive p v c) = False"

definition well_formed :: "line list \<Rightarrow> bool" where
  "well_formed sshFile = list_all well_formed_stanza sshFile"

fun declared_hosts :: "line list \<Rightarrow> SSHConfigHosts" where
  "declared_hosts [] = []"
| "declared_hosts (Directive p (Str h) (Some cfg) # rest) =
     (case SSHConfigSectionSchema_safeParse (declared cfg) of
        Some data \<Rightarrow> (h, data) # declared_hosts rest
      | None \<Rightarrow> declared_hosts rest)"
| "declared_hosts (_ # rest) = declared_hosts rest"

section \<open>Properties\<close>

subsection \<open>String built-ins\<close>

lemma split_nonempty: "split s sep \<noteq> []"
  by (induction s) (auto split: list.splits)

lemma index0_split: "index0 (split s sep) = Some (takeWhile (\<lambda>c. c \<noteq> sep) s)"
  by (induction s) (auto simp: index0_def split: list.splits)

lemma length_js_Hi: "length (js ''Hi '') = 3"
  by (simp add: js_def)

lemma trim_last: "trim s \<noteq> [] \<Longrightarrow> \<not> isWhiteSpace (last (trim s))"
  unfolding trim_def
  by (metis (no_types, lifting) hd_dropWhile hd_rev rev_rev_ident rev_is_Nil_conv)

lemma isWhiteSpace_SPACE: "isWhiteSpace SPACE"
  by (simp add: isWhiteSpace_def SPACE_def)

lemma split_no_sep: "sep \<notin> set s \<Longrightarrow> split s sep = [s]"
  by (induction s) auto

lemma length_split: "length (split s sep) = Suc (length (filter (\<lambda>c. c = sep) s))"
  by (induction s) (auto split: list.splits)

lemma split_single: "split s sep = [t] \<Longrightarrow> sep \<notin> set s"
proof -
  assume "split s sep = [t]"
  then have "length (filter (\<lambda>c. c = sep) s) = 0"
    using length_split[of s sep] by simp
  then show ?thesis by (auto simp: filter_empty_conv)
qed

lemma last_split: "last (split s sep) = rev (takeWhile (\<lambda>c. c \<noteq> sep) (rev s))"
proof (induction s)
  case Nil
  show ?case by simp
next
  case (Cons c cs)
  show ?case
  proof (cases "c = sep")
    case True
    then show ?thesis using Cons by (simp add: split_nonempty takeWhile_append takeWhile_eq_all_conv[THEN iffD2])
  next
    case False
    obtain t ts where sp: "split cs sep = t # ts"
      using split_nonempty[of cs sep] by (cases "split cs sep") auto
    show ?thesis
    proof (cases ts)
      case Nil
      with sp have ns: "sep \<notin> set cs" by (simp add: split_single)
      then have "t = cs" using sp Nil by (simp add: split_no_sep)
      then have l: "last (split (c # cs) sep) = c # cs"
        using False sp Nil by simp
      have "takeWhile (\<lambda>c. c \<noteq> sep) (rev (c # cs)) = rev (c # cs)"
        using ns False by (auto simp: takeWhile_eq_all_conv)
      then have "rev (takeWhile (\<lambda>c. c \<noteq> sep) (rev (c # cs))) = c # cs"
        by (metis rev_rev_ident)
      with l show ?thesis by metis
    next
      case (Cons u us)
      have "sep \<in> set cs"
      proof (rule ccontr)
        assume "sep \<notin> set cs"
        then have "split cs sep = [cs]" by (rule split_no_sep)
        with sp Cons show False by simp
      qed
      then have "takeWhile (\<lambda>c. c \<noteq> sep) (rev cs @ [c]) = takeWhile (\<lambda>c. c \<noteq> sep) (rev cs)"
        by (auto simp: takeWhile_append)
      then show ?thesis using False sp Cons Cons.IH by simp
    qed
  qed
qed

lemma pop_split: "pop (split s sep) = Some (rev (takeWhile (\<lambda>c. c \<noteq> sep) (rev s)))"
  by (simp add: pop_def split_nonempty last_split)

lemma email_nonempty:
  assumes "trim content \<noteq> []"
  shows "rev (takeWhile (\<lambda>c. c \<noteq> SPACE) (rev (trim content))) \<noteq> []"
proof -
  have "last (trim content) \<noteq> SPACE"
    using trim_last[OF assms] isWhiteSpace_SPACE by metis
  then have "hd (rev (trim content)) \<noteq> SPACE" using assms by (simp add: hd_rev)
  then show ?thesis using assms by (cases "rev (trim content)") auto
qed

subsection \<open>getUsername\<close>

lemma startsWith_Hi_not_marker:
  "startsWith s (js ''Hi '') \<Longrightarrow> \<not> startsWith s (js ''ssh: Could not resolve'')"
  by (cases s) (auto simp: startsWith_def js_def)

text \<open>
  C3, as the claim states it, fails: the three shapes are tested on the captured text
  after \<open>trim()\<close>, not on the captured text. The text \<open>" Hi bob!"\<close> begins with
  neither the resolution-failure marker nor \<open>"Hi "\<close>, so the claim gives it an absent
  username; \<open>getUsername\<close> returns \<open>"bob"\<close>.
\<close>

theorem getUsername_untrimmed_counterexample:
  "\<not> startsWith (js '' Hi bob!'') (js ''ssh: Could not resolve'') \<and>
   \<not> startsWith (js '' Hi bob!'') (js ''Hi '') \<and>
   fst (getUsername (probe_env (js '' Hi bob!'')) (js ''work'')) = Some (js ''bob'')"
  by (simp add: getUsername_def probe_env_def example_env_def trim_def isWhiteSpace_def js_def
      startsWith_def substring_def index0_def EXCL_def)

text \<open>
  C3, amended: \<open>getUsername\<close> classifies the captured probe output after trimming the
  whitespace at both ends. Trimmed text that begins with the resolution-failure marker
  gives an absent username; trimmed text that begins with \<open>"Hi "\<close> gives the substring
  between that prefix and the first \<open>'!'\<close>; any other text gives an absent username; and
  a probe that throws gives an absent username too, so \<open>getUsername\<close> never raises.
  The response \<open>"Hi bob! You've successfully authenticated..."\<close> gives \<open>"bob"\<close>.
\<close>

theorem getUsername_classifies:
  "fst (getUsername e sshHost) =
     (case ssh_T e sshHost of
        Inl error \<Rightarrow> None
      | Inr stdout \<Rightarrow>
          if startsWith (trim stdout) (js ''ssh: Could not resolve'') then None
          else if startsWith (trim stdout) (js ''Hi '')
            then Some (takeWhile (\<lambda>c. c \<noteq> EXCL) (drop 3 (trim stdout)))
          else None) \<and>
   fst (getUsername (probe_env example_stdout) sshHost) = Some (js ''bob'')"
proof
  show "fst (getUsername e sshHost) =
     (case ssh_T e sshHost of
        Inl error \<Rightarrow> None
      | Inr stdout \<Rightarrow>
          if startsWith (trim stdout) (js ''ssh: Could not resolve'') then None
          else if startsWith (trim stdout) (js ''Hi '')
            then Some (takeWhile (\<lambda>c. c \<noteq> EXCL) (drop 3 (trim stdout)))
          else None)"
    by (simp add: getUsername_def Let_def index0_split substring_def length_js_Hi split: sum.splits)
  show "fst (getUsername (probe_env example_stdout) sshHost) = Some (js ''bob'')"
    by (simp add: getUsername_def probe_env_def example_env_def example_stdout_def trim_def
        isWhiteSpace_def js_def startsWith_def substring_def index0_def EXCL_def NEWLINE_def)
qed

text \<open>
  C10, as the claim states it, fails: the probe output \<open>"Hi "\<close> begins with \<open>"Hi "\<close>
  and contains no \<open>'!'\<close>, but its trimmed text is \<open>"Hi"\<close>, which matches no shape, and
  the username is absent.
\<close>

theorem getUsername_Hi_only_counterexample:
  "startsWith (js ''Hi '') (js ''Hi '') \<and> EXCL \<notin> set (js ''Hi '') \<and>
   fst (getUsername (probe_env (js ''Hi '')) (js ''work'')) = None"
  by (simp add: getUsername_def probe_env_def example_env_def trim_def isWhiteSpace_def js_def
      startsWith_def substring_def index0_def EXCL_def)

text \<open>
  C10, amended: for every probe output whose trimmed text begins with \<open>"Hi "\<close> and
  contains no \<open>'!'\<close>, \<open>getUsername\<close> returns the whole remainder of the trimmed text
  after the prefix; that remainder is not empty, so the username is not absent.
\<close>

theorem getUsername_no_exclamation:
  assumes "ssh_T e sshHost = Inr stdout"
    and "startsWith (trim stdout) (js ''Hi '')"
    and "EXCL \<notin> set (trim stdout)"
  shows "fst (getUsername e sshHost) = Some (drop 3 (trim stdout)) \<and> drop 3 (trim stdout) \<noteq> []"
proof -
  have notmarker: "\<not> startsWith (trim stdout) (js ''ssh: Could not resolve'')"
    using assms(2) by (rule startsWith_Hi_not_marker)
  have "EXCL \<notin> set (drop 3 (trim stdout))"
    using assms(3) by (meson in_set_dropD)
  then have tw: "takeWhile (\<lambda>c. c \<noteq> EXCL) (drop 3 (trim stdout)) = drop 3 (trim stdout)"
    by (simp add: takeWhile_eq_all_conv) blast
  have res: "fst (getUsername e sshHost) = Some (drop 3 (trim stdout))"
    using assms(1,2) notmarker tw
    by (simp add: getUsername_def Let_def index0_split substring_def length_js_Hi)
  have pre: "take 3 (trim stdout) = js ''Hi ''"
    using assms(2) by (simp add: startsWith_def length_js_Hi)
  have "drop 3 (trim stdout) \<noteq> []"
  proof
    assume "drop 3 (trim stdout) = []"
    then have "trim stdout = js ''Hi ''"
      using pre by (metis append_take_drop_id append_Nil2)
    moreover have "last (js ''Hi '') = SPACE" by (simp add: js_def SPACE_def)
    moreover have "js ''Hi '' \<noteq> []" by (simp add: js_def)
    ultimately show False using trim_last[of stdout] isWhiteSpace_SPACE by simp
  qed
  with res show ?thesis by simp
qed

theorem getUsername_no_exclamation_witness:
  "fst (getUsername (probe_env (js ''Hi bob'' @ [NEWLINE])) (js ''work'')) = Some (js ''bob'')"
proof -
  let ?out = "js ''Hi bob'' @ [NEWLINE]"
  have t: "trim ?out = js ''Hi bob''"
    by (simp add: trim_def isWhiteSpace_def js_def NEWLINE_def)
  have a1: "ssh_T (probe_env ?out) (js ''work'') = Inr ?out"
    by (simp add: probe_env_def)
  have a2: "startsWith (trim ?out) (js ''Hi '')"
    unfolding t by (simp add: startsWith_def js_def)
  have a3: "EXCL \<notin> set (trim ?out)"
    unfolding t by (simp add: js_def EXCL_def)
  have "drop 3 (trim ?out) = js ''bob''"
    unfolding t by (simp add: js_def)
  with getUsername_no_exclamation[OF a1 a2 a3] show ?thesis by simp
qed

subsection \<open>gitSetup\<close>

lemma writes_append: "writes (xs @ ys) = writes xs @ writes ys"
  by (induction xs rule: writes.induct) auto

lemma writes_getUsername: "writes (snd (getUsername e h)) = []"
  by (simp add: getUsername_def Let_def split: sum.splits)

lemma writes_setGitValue: "writes (snd (setGitValue e k v location)) = [(location, k, v)]"
  by (simp add: setGitValue_def Let_def split: option.splits)

lemma startsWith_git_nonempty: "startsWith s (js ''git@'') \<Longrightarrow> s \<noteq> []"
  by (auto simp: startsWith_def js_def)

lemma length_js_git: "length (js ''git@'') = 4"
  by (simp add: js_def)

lemma js_in_own: "map_of obj k = Some v \<Longrightarrow> js_in k obj"
  by (auto simp: js_in_def dest: map_of_SomeD intro: rev_image_eqI)

lemma js_get_own: "map_of obj k = Some v \<Longrightarrow> js_get obj k = Own v"
  by (simp add: js_get_def)

lemma truthy_remoteOrigin:
  "git_remote_origin_url e = Inr result \<Longrightarrow> trim result \<noteq> [] \<Longrightarrow>
   truthy (getGitRemoteOrigin e) = Some (trim result)"
  by (simp add: getGitRemoteOrigin_def truthy_def falsy_def)

lemma sshHost_eq:
  "ToString (index0 (split (substring r (length (js ''git@''))) COLON)) =
   takeWhile (\<lambda>c. c \<noteq> COLON) (drop 4 r)"
  by (simp add: index0_split substring_def length_js_git ToString_def)

lemma truthy_Some: "s \<noteq> [] \<Longrightarrow> truthy (Some s) = Some s"
  by (simp add: truthy_def falsy_def)

lemma truthy_pop_split_empty: "trim content = [] \<Longrightarrow> truthy (pop (split (trim content) SPACE)) = None"
  by (simp add: pop_def truthy_def falsy_def)

lemma truthy_pop_split:
  "trim content \<noteq> [] \<Longrightarrow> truthy (pop (split (trim content) SPACE)) = Some (last_space_token (trim content))"
  using email_nonempty[of content] by (simp add: pop_split truthy_Some last_space_token_def)

text \<open>The example environment passes every check of \<open>gitSetup\<close>.\<close>

lemma ex_config: "getSSHConfig example_env default_sshConfigPathPartial = Ok example_hosts"
  by code_simp

lemma ex_rev_parse: "git_rev_parse example_env = None"
  by (simp add: example_env_def)

lemma ex_origin: "git_remote_origin_url example_env = Inr (js ''git@work:org/repo.git'' @ [NEWLINE])"
  by (simp add: example_env_def)

lemma ex_startsWith: "startsWith (trim (js ''git@work:org/repo.git'' @ [NEWLINE])) (js ''git@'')"
  by code_simp

lemma ex_sshHost: "js ''work'' = takeWhile (\<lambda>c. c \<noteq> COLON) (drop 4 (trim (js ''git@work:org/repo.git'' @ [NEWLINE])))"
  by code_simp

lemma ex_section: "map_of example_hosts (js ''work'') = Some \<lparr>HostName = js ''github.com'', User = js ''git'',
         IdentityFile = Some (js ''~/.ssh/id_work''), AddKeysToAgent = None, IdentitiesOnly = None\<rparr>"
  by code_simp

lemma ex_path: "js ''/home/alice/.ssh/id_work.pub'' = expandTilde example_env (js ''~/.ssh/id_work'') @ js ''.pub''"
  by code_simp

lemma ex_exists: "fs_exists example_env (js ''/home/alice/.ssh/id_work.pub'')"
  by (simp add: example_env_def)

lemma ex_read: "fs_readFile example_env (js ''/home/alice/.ssh/id_work.pub'') = Inr example_pubkey"
  by code_simp

lemma ex_username: "truthy (fst (getUsername example_env (js ''work''))) = Some (js ''bob'')"
  by code_simp



text \<open>
  C1, as the claim states it, fails: the code splits the trimmed text at the space character
  only (\<open>split(' ')\<close>), so other whitespace inside the text does not end a token. For the
  key file made of \<open>ssh-ed25519 AAAAC3...\<close>, a TAB, \<open>alice@example.com\<close> and a line feed, the last
  whitespace-delimited token is \<open>"alice@example.com"\<close>, but the email written is
  \<open>AAAAC3...\<close>, the TAB and \<open>alice@example.com\<close> together.
\<close>

theorem gitSetup_tab_counterexample:
  "last_whitespace_token (trim tab_pubkey) = js ''alice@example.com'' \<and>
   last (writes (snd (gitSetup (pubkey_env tab_pubkey)))) =
     (Local, js ''user.email'', js ''AAAAC3...'' @ [TAB] @ js ''alice@example.com'')"
  by code_simp

text \<open>
  C1, amended: for every existing public key file reached at the email-extraction stage, if
  the trimmed content is empty, \<open>gitSetup\<close> fails with \<open>SSHPubkeyMalformedError\<close>;
  otherwise the resolved email is the last token of the trimmed content when it is split at
  the space character U+0020 (tabs and line breaks inside the content do not separate
  tokens), it is not empty, and it is the value written to \<open>user.email\<close> when the
  username is resolved. The file \<open>"ssh-ed25519 AAAAC3...  alice@example.com"\<close> with a final line feed gives
  \<open>"alice@example.com"\<close>.
\<close>

theorem gitSetup_email:
  assumes "git_rev_parse e = None"
    and "git_remote_origin_url e = Inr result"
    and "startsWith (trim result) (js ''git@'')"
    and "sshHost = takeWhile (\<lambda>c. c \<noteq> COLON) (drop 4 (trim result))"
    and "getSSHConfig e default_sshConfigPathPartial = Ok sshConfigFile"
    and "map_of sshConfigFile sshHost = Some section"
    and "IdentityFile section = Some identityFile"
    and "identityFile \<noteq> []"
    and "identityFilePath = expandTilde e identityFile @ js ''.pub''"
    and "fs_exists e identityFilePath"
    and "fs_readFile e identityFilePath = Inr content"
  shows "(trim content = [] \<longrightarrow>
            fst (gitSetup e) =
              Inr (Err' SSHPubkeyMalformedError (js ''No email found in file '' @ identityFilePath))) \<and>
         (trim content \<noteq> [] \<longrightarrow>
            last_space_token (trim content) \<noteq> [] \<and>
            (case truthy (fst (getUsername e sshHost)) of
               None \<Rightarrow>
                 fst (gitSetup e) =
                   Inr (Err' SSHPubkeyNotAttachedToUserError
                     (js ''Could not determine username. Check if pubkey at '' @ identityFilePath @
                      js '' is saved in github as an AuthN key''))
             | Some username \<Rightarrow>
                 fst (gitSetup e) = Inr (Ok True) \<and>
                 last (writes (snd (gitSetup e))) =
                   (Local, js ''user.email'', last_space_token (trim content))))"
proof -
  have ro: "truthy (getGitRemoteOrigin e) = Some (trim result)"
    using assms(2,3) by (simp add: truthy_remoteOrigin startsWith_git_nonempty)
  have idf: "truthy (IdentityFile section) = Some identityFile"
    using assms(7,8) by (simp add: truthy_Some)
  obtain u t2 where gu: "getUsername e sshHost = (u, t2)" by (cases "getUsername e sshHost")
  have w2: "writes t2 = []"
    using gu writes_getUsername[of e sshHost] by simp
  note pre = assms(1,3,5,6,10,11) ro idf gu w2 js_in_own[OF assms(6)] js_get_own[OF assms(6)]
  have A: "fst (gitSetup e) =
              Inr (Err' SSHPubkeyMalformedError (js ''No email found in file '' @ identityFilePath))"
    if "trim content = []"
    using pre truthy_pop_split_empty[OF that]
    unfolding gitSetup_def isGitRepository_def
    by (simp add: Let_def sshHost_eq assms(4)[symmetric] assms(9)[symmetric])
  have B: "case truthy (fst (getUsername e sshHost)) of
               None \<Rightarrow>
                 fst (gitSetup e) =
                   Inr (Err' SSHPubkeyNotAttachedToUserError
                     (js ''Could not determine username. Check if pubkey at '' @ identityFilePath @
                      js '' is saved in github as an AuthN key''))
             | Some username \<Rightarrow>
                 fst (gitSetup e) = Inr (Ok True) \<and>
                 last (writes (snd (gitSetup e))) =
                   (Local, js ''user.email'', last_space_token (trim content))"
    if "trim content \<noteq> []"
    using pre truthy_pop_split[OF that]
    unfolding gitSetup_def isGitRepository_def
    by (simp add: Let_def sshHost_eq assms(4)[symmetric] assms(9)[symmetric]
        writes_append writes_setGitValue split: option.splits)
  have C: "last_space_token (trim content) \<noteq> []" if "trim content \<noteq> []"
    using email_nonempty[OF that] by (simp add: last_space_token_def)
  from A B C show ?thesis by blast
qed

theorem gitSetup_email_witness:
  "trim example_pubkey \<noteq> [] \<and>
   fst (gitSetup example_env) = Inr (Ok True) \<and>
   last (writes (snd (gitSetup example_env))) = (Local, js ''user.email'', js ''alice@example.com'')"
proof -
  have ne: "trim example_pubkey \<noteq> []" by code_simp
  have tok: "last_space_token (trim example_pubkey) = js ''alice@example.com''" by code_simp
  have idf: "IdentityFile \<lparr>HostName = js ''github.com'', User = js ''git'',
         IdentityFile = Some (js ''~/.ssh/id_work''), AddKeysToAgent = None, IdentitiesOnly = None\<rparr> = Some (js ''~/.ssh/id_work'')" by simp
  have idne: "js ''~/.ssh/id_work'' \<noteq> []" by (simp add: js_def)
  show ?thesis
    using gitSetup_email[OF ex_rev_parse ex_origin ex_startsWith ex_sshHost ex_config ex_section idf idne
        ex_path ex_exists ex_read] ne tok ex_username
    by simp
qed

text \<open>
  C6: once \<open>gitSetup\<close> has a remote origin (the directory is a repository and the trimmed
  output of the remote query is not empty), a remote URL that does not start with
  \<open>"git@"\<close> fails with \<open>RemoteOriginIsNotSSHError\<close>; for a URL that starts with
  \<open>"git@"\<close>, the key looked up in the host mapping is the substring after \<open>"git@"\<close> up
  to the first \<open>':'\<close>: the run fails with \<open>SSHConfigHostMissingError\<close> exactly when
  that key is not \<open>in\<close> the mapping. \<open>git@work:org/repo.git\<close> gives the key \<open>"work"\<close>.
\<close>

theorem gitSetup_remote_origin:
  assumes "git_rev_parse e = None"
    and "git_remote_origin_url e = Inr result"
    and "trim result \<noteq> []"
    and "sshHost = takeWhile (\<lambda>c. c \<noteq> COLON) (drop 4 (trim result))"
  shows "(\<not> startsWith (trim result) (js ''git@'') \<longrightarrow>
            fst (gitSetup e) =
              Inr (Err' RemoteOriginIsNotSSHError
                (js ''Remote origin '' @ [APOS] @ trim result @ [APOS] @ js '' isn't an ssh-based origin''))) \<and>
         (startsWith (trim result) (js ''git@'') \<longrightarrow>
            (\<forall>sshConfigFile. getSSHConfig e default_sshConfigPathPartial = Ok sshConfigFile \<longrightarrow>
               ((\<exists>reason silent. fst (gitSetup e) = Inr (Err SSHConfigHostMissingError reason silent))
                  \<longleftrightarrow> \<not> js_in sshHost sshConfigFile)))"
proof -
  have ro: "truthy (getGitRemoteOrigin e) = Some (trim result)"
    using assms(2,3) by (simp add: truthy_remoteOrigin)
  have A: "fst (gitSetup e) =
              Inr (Err' RemoteOriginIsNotSSHError
                (js ''Remote origin '' @ [APOS] @ trim result @ [APOS] @ js '' isn't an ssh-based origin''))"
    if "\<not> startsWith (trim result) (js ''git@'')"
    using assms(1) ro that unfolding gitSetup_def isGitRepository_def by simp
  have B: "(\<exists>reason silent. fst (gitSetup e) = Inr (Err SSHConfigHostMissingError reason silent))
                  \<longleftrightarrow> \<not> js_in sshHost sshConfigFile"
    if "startsWith (trim result) (js ''git@'')"
      and "getSSHConfig e default_sshConfigPathPartial = Ok sshConfigFile"
    for sshConfigFile
    using assms(1) ro that unfolding gitSetup_def isGitRepository_def
    by (auto simp: Let_def sshHost_eq assms(4)[symmetric] Err'_def
        split: option.splits jsproperty.splits sum.splits prod.splits)
  from A B show ?thesis by blast
qed

theorem gitSetup_remote_origin_witness:
  "fst (gitSetup (origin_env (js ''https://github.com/org/repo.git''))) =
     Inr (Err' RemoteOriginIsNotSSHError
       (js ''Remote origin 'https://github.com/org/repo.git' isn't an ssh-based origin'')) \<and>
   takeWhile (\<lambda>c. c \<noteq> COLON) (drop 4 (trim (js ''git@work:org/repo.git'' @ [NEWLINE]))) = js ''work'' \<and>
   js_in (js ''work'') example_hosts \<and>
   (\<forall>reason silent. fst (gitSetup example_env) \<noteq> Inr (Err SSHConfigHostMissingError reason silent))"
proof -
  let ?e = "origin_env (js ''https://github.com/org/repo.git'')"
  let ?url = "js ''https://github.com/org/repo.git''"
  have h1: "git_rev_parse ?e = None"
    by (simp add: origin_env_def example_env_def)
  have h2: "git_remote_origin_url ?e = Inr ?url"
    by (simp add: origin_env_def)
  have t: "trim ?url = ?url" by code_simp
  have h3: "trim ?url \<noteq> []" by code_simp
  have n: "\<not> startsWith (trim ?url) (js ''git@'')" by code_simp
  have r: "js ''Remote origin '' @ [APOS] @ ?url @ [APOS] @ js '' isn't an ssh-based origin'' =
           js ''Remote origin 'https://github.com/org/repo.git' isn't an ssh-based origin''"
    by code_simp
  have A: "fst (gitSetup ?e) =
     Inr (Err' RemoteOriginIsNotSSHError
       (js ''Remote origin 'https://github.com/org/repo.git' isn't an ssh-based origin''))"
    using gitSetup_remote_origin[OF h1 h2 h3 refl] n r t by simp
  have h3': "trim (js ''git@work:org/repo.git'' @ [NEWLINE]) \<noteq> []" by code_simp
  have j: "js_in (js ''work'') example_hosts" by code_simp
  have B: "\<forall>reason silent. fst (gitSetup example_env) \<noteq> Inr (Err SSHConfigHostMissingError reason silent)"
    using gitSetup_remote_origin[OF ex_rev_parse ex_origin h3' ex_sshHost] ex_startsWith ex_config j
    by blast
  from A B ex_sshHost j show ?thesis by simp
qed

lemma gitSetup_never_SSHConfigFileMissingError:
  "fst (gitSetup e) \<noteq> Inr (Err GitSetupError.SSHConfigFileMissingError reason silent)"
  unfolding gitSetup_def
  by (auto simp: Let_def Err'_def split: option.splits jsproperty.splits sum.splits prod.splits Result.splits)

text \<open>
  C9: when the SSH configuration file is missing (and the checks before it passed),
  \<open>gitSetup\<close> returns \<open>SSHConfigFileMalformedError\<close>, its reason being the parser's
  \<open>SSHConfigFileMissingError\<close> and reason joined by \<open>": "\<close>; and no run of
  \<open>gitSetup\<close> returns \<open>GitSetupError.SSHConfigFileMissingError\<close>.
\<close>

theorem gitSetup_config_missing:
  assumes "git_rev_parse e = None"
    and "git_remote_origin_url e = Inr result"
    and "startsWith (trim result) (js ''git@'')"
    and "\<not> fs_exists e (expandTilde e default_sshConfigPathPartial)"
  shows "fst (gitSetup e) =
           Inr (Err' SSHConfigFileMalformedError
             (js ''SSHConfigFileMissingError'' @ js '': '' @
              js ''No file found at '' @ expandTilde e default_sshConfigPathPartial)) \<and>
         (\<forall>e' reason silent.
            fst (gitSetup e') \<noteq> Inr (Err GitSetupError.SSHConfigFileMissingError reason silent))"
proof -
  have ro: "truthy (getGitRemoteOrigin e) = Some (trim result)"
    using assms(2,3) by (simp add: truthy_remoteOrigin startsWith_git_nonempty)
  have cfg: "getSSHConfig e default_sshConfigPathPartial =
     Err' GetSSHConfigError.SSHConfigFileMissingError
       (js ''No file found at '' @ expandTilde e default_sshConfigPathPartial)"
    using assms(4) by (simp add: getSSHConfig_def Let_def)
  have "fst (gitSetup e) =
           Inr (Err' SSHConfigFileMalformedError
             (js ''SSHConfigFileMissingError'' @ js '': '' @
              js ''No file found at '' @ expandTilde e default_sshConfigPathPartial))"
    using assms(1,3) ro cfg unfolding gitSetup_def isGitRepository_def
    by (simp add: Let_def Err'_def)
  then show ?thesis using gitSetup_never_SSHConfigFileMissingError by blast
qed

theorem gitSetup_config_missing_witness:
  "fst (gitSetup missing_config_env) =
     Inr (Err' SSHConfigFileMalformedError
       (js ''SSHConfigFileMissingError: No file found at /home/alice/.ssh/config''))"
proof -
  let ?e = missing_config_env
  have h1: "git_rev_parse ?e = None"
    by (simp add: missing_config_env_def example_env_def)
  have h2: "git_remote_origin_url ?e = Inr (js ''git@work:org/repo.git'' @ [NEWLINE])"
    by (simp add: missing_config_env_def example_env_def)
  have h4: "\<not> fs_exists ?e (expandTilde ?e default_sshConfigPathPartial)"
    by code_simp
  have r: "js ''SSHConfigFileMissingError'' @ js '': '' @
              js ''No file found at '' @ expandTilde ?e default_sshConfigPathPartial
           = js ''SSHConfigFileMissingError: No file found at /home/alice/.ssh/config''"
    by code_simp
  show ?thesis
    using gitSetup_config_missing[OF h1 h2 ex_startsWith h4] r by simp
qed

text \<open>
  C5: a remote URL \<open>git@host:...\<close> whose host key is absent from the host mapping
  should fail with \<open>SSHConfigHostMissingError\<close>, the reason listing the configured
  aliases. The code departs from this where the host key is a property name of
  \<open>Object.prototype\<close>: with the remote \<open>git@toString:org/repo.git\<close> and the example
  mapping, which has no alias \<open>toString\<close>, the test \<open>sshHost in sshConfigFile\<close> is
  true, and the run fails with \<open>SSHPubkeyMissingError\<close> instead.
\<close>

theorem gitSetup_inherited_host:
  "js ''toString'' \<notin> set (map fst example_hosts) \<and>
   getSSHConfig (origin_env (js ''git@toString:org/repo.git'')) default_sshConfigPathPartial = Ok example_hosts \<and>
   fst (gitSetup (origin_env (js ''git@toString:org/repo.git''))) =
     Inr (Err' SSHPubkeyMissingError
       (js ''No IdentityFile entry found for Host '' @ [APOS] @ js ''toString'' @ [APOS]))"
  by code_simp

text \<open>
  For a host key that is neither an alias nor a property name of \<open>Object.prototype\<close>
  the run fails with \<open>SSHConfigHostMissingError\<close>, and the reason lists every key of the
  mapping.
\<close>

lemma set_Object_keys: "set (Object_keys obj) = set (map fst obj)"
  by (auto simp: Object_keys_def)

lemma gitSetup_host_missing:
  assumes "git_rev_parse e = None"
    and "git_remote_origin_url e = Inr result"
    and "startsWith (trim result) (js ''git@'')"
    and "sshHost = takeWhile (\<lambda>c. c \<noteq> COLON) (drop 4 (trim result))"
    and "getSSHConfig e default_sshConfigPathPartial = Ok sshConfigFile"
    and "\<not> js_in sshHost sshConfigFile"
  shows "fst (gitSetup e) =
           Inr (Err' SSHConfigHostMissingError
             (join ([js ''No existing ssh config entry for the origin remote host '' @ [APOS] @ sshHost @ [APOS],
                     js ''Existing Hosts are''] @ Object_keys sshConfigFile) [NEWLINE]))"
proof -
  have ro: "truthy (getGitRemoteOrigin e) = Some (trim result)"
    using assms(2,3) by (simp add: truthy_remoteOrigin startsWith_git_nonempty)
  show ?thesis
    using assms(1,3,5,6) ro unfolding gitSetup_def isGitRepository_def
    by (simp add: Let_def sshHost_eq assms(4)[symmetric])
qed

subsection \<open>listHosts\<close>

lemma listHosts_loop_filter:
  "listHosts_loop sshConfig gitHosts keys =
     gitHosts @ filter (\<lambda>host. case map_of sshConfig host of
                                 Some hostConfig \<Rightarrow> HostName hostConfig = js ''github.com''
                               | None \<Rightarrow> False) keys"
  by (induction keys arbitrary: gitHosts) (auto simp: js_get_def split: option.splits)

text \<open>
  C8: for every host mapping that \<open>getSSHConfig\<close> returns, \<open>listHosts\<close> reports exactly
  the aliases whose \<open>HostName\<close> is \<open>github.com\<close>, in the enumeration order of the
  mapping (\<open>for ... in\<close>). For the example mapping of three entries, two of them with
  \<open>github.com\<close>, it reports those two in their order.
\<close>

theorem listHosts_github:
  assumes "getSSHConfig e default_sshConfigPathPartial = Ok sshConfig"
  shows "listHosts e =
           (Ok True,
            Log (js ''Available hosts:'') #
            map (\<lambda>host. Log (js '' - '' @ host))
              (filter (\<lambda>host. case map_of sshConfig host of
                                 Some hostConfig \<Rightarrow> HostName hostConfig = js ''github.com''
                               | None \<Rightarrow> False)
                 (Object_keys sshConfig)))"
  using assms by (simp add: listHosts_def Let_def listHosts_loop_filter)

theorem listHosts_github_witness:
  "Object_keys example_hosts = [js ''work'', js ''lab'', js ''personal''] \<and>
   listHosts example_env =
     (Ok True, [Log (js ''Available hosts:''), Log (js '' - work''), Log (js '' - personal'')])"
proof -
  have k: "Object_keys example_hosts = [js ''work'', js ''lab'', js ''personal'']"
    by code_simp
  have f: "map (\<lambda>host. Log (js '' - '' @ host))
              (filter (\<lambda>host. case map_of example_hosts host of
                                 Some hostConfig \<Rightarrow> HostName hostConfig = js ''github.com''
                               | None \<Rightarrow> False)
                 [js ''work'', js ''lab'', js ''personal''])
           = [Log (js '' - work''), Log (js '' - personal'')]"
    by code_simp
  show ?thesis using listHosts_github[OF ex_config] k f by simp
qed

subsection \<open>getSSHConfig\<close>

lemma keyValues_loop_declared:
  "list_all string_valued cfg \<Longrightarrow>
   keyValues_loop e path host keyValues cfg = Ok (keyValues ++ declared cfg)"
proof (induction cfg arbitrary: keyValues)
  case Nil
  have "declared [] = Map.empty" by (rule ext) simp
  then show ?case by simp
next
  case (Cons l cfg)
  show ?case
  proof (cases l)
    case (Comment c)
    have "declared (Comment c # cfg) = declared cfg" by (rule ext) simp
    with Cons Comment show ?thesis by simp
  next
    case (Directive p v c)
    with Cons.prems obtain s where v: "v = Str s" by (cases v) auto
    have eq: "keyValues(p \<mapsto> s) ++ declared cfg = keyValues ++ declared (l # cfg)"
      unfolding Directive v by (rule ext) (auto simp: map_add_def split: option.splits)
    have sv: "list_all string_valued cfg" using Cons.prems by simp
    have "keyValues_loop e path host keyValues (l # cfg) =
          keyValues_loop e path host (keyValues(p \<mapsto> s)) cfg"
      unfolding Directive v by simp
    also have "\<dots> = Ok (keyValues(p \<mapsto> s) ++ declared cfg)"
      using sv by (rule Cons.IH)
    finally show ?thesis unfolding eq .
  qed
qed

lemma keyValues_loop_Ok:
  "keyValues_loop e path host keyValues cfg = Ok kv \<Longrightarrow> list_all string_valued cfg"
proof (induction cfg arbitrary: keyValues)
  case Nil
  then show ?case by simp
next
  case (Cons l cfg)
  then show ?case
    by (cases l) (auto simp: Err'_def split: jsvalue.splits)
qed

lemma safeParse_Some_iff:
  "SSHConfigSectionSchema_safeParse kv \<noteq> None \<longleftrightarrow> kv (js ''HostName'') \<noteq> None \<and> kv (js ''User'') \<noteq> None"
  by (auto simp: SSHConfigSectionSchema_safeParse_def split: option.splits)

lemma getSSHConfig_loop_append:
  "getSSHConfig_loop e path hosts (pre @ rest) =
     (case getSSHConfig_loop e path hosts pre of
        Ok hosts' \<Rightarrow> getSSHConfig_loop e path hosts' rest
      | Err error reason silent \<Rightarrow> Err error reason silent)"
proof (induction pre arbitrary: hosts)
  case Nil
  show ?case by simp
next
  case (Cons l pre)
  show ?case
    by (cases l) (auto simp: Let_def Err'_def Cons.IH split: jsvalue.splits option.splits Result.splits)
qed

lemma getSSHConfig_loop_Ok:
  "getSSHConfig_loop e path hosts sshFile = Ok hosts' \<Longrightarrow>
   well_formed sshFile \<and> hosts' = hosts @ declared_hosts sshFile \<and>
   map fst (declared_hosts sshFile) = hostAliases sshFile \<and>
   distinct (hostAliases sshFile) \<and>
   set (map fst hosts) \<inter> set (hostAliases sshFile) = {} \<and>
   set (hostAliases sshFile) \<inter> set Object_prototype_keys = {}"
proof (induction sshFile arbitrary: hosts)
  case Nil
  then show ?case by (simp add: well_formed_def)
next
  case (Cons l sshFile)
  show ?case
  proof (cases l)
    case (Comment c)
    with Cons.prems have "getSSHConfig_loop e path hosts sshFile = Ok hosts'" by simp
    from Cons.IH[OF this] Comment show ?thesis by (auto simp: well_formed_def)
  next
    case (Directive p v c)
    from Cons.prems Directive have p: "p = js ''Host''"
      by (auto simp: Let_def Err'_def split: if_splits)
    from Cons.prems Directive p obtain h where v: "v = Str h"
      by (cases v) (auto simp: Let_def Err'_def)
    from Cons.prems Directive p v obtain cfg where c: "c = Some cfg"
      by (cases c) (auto simp: Let_def Err'_def)
    from Cons.prems Directive p v c have nin: "\<not> js_in h hosts"
      by (auto simp: Let_def Err'_def split: if_splits)
    from Cons.prems Directive p v c nin obtain kv where
      kv: "keyValues_loop e path h Map.empty cfg = Ok kv"
      by (auto simp: Let_def Err'_def split: Result.splits)
    have sv: "list_all string_valued cfg" using kv by (rule keyValues_loop_Ok)
    then have kv': "kv = declared cfg"
      using kv keyValues_loop_declared[of cfg e path h Map.empty] by simp
    from Cons.prems Directive p v c nin kv obtain data where
      data: "SSHConfigSectionSchema_safeParse kv = Some data"
      and rest: "getSSHConfig_loop e path (hosts @ [(h, data)]) sshFile = Ok hosts'"
      by (auto simp: Let_def Err'_def split: option.splits)
    note IH = Cons.IH[OF rest]
    have wf: "well_formed_stanza l"
      using Directive p v c sv data kv' safeParse_Some_iff[of kv] by simp
    have "h \<notin> set (map fst hosts)" "h \<notin> set Object_prototype_keys"
      using nin by (auto simp: js_in_def)
    then show ?thesis
      using IH wf Directive p v c data kv'
      by (auto simp: well_formed_def)
  qed
qed

lemma getSSHConfig_loop_well_formed:
  "well_formed sshFile \<Longrightarrow> distinct (map fst hosts @ hostAliases sshFile) \<Longrightarrow>
   set (hostAliases sshFile) \<inter> set Object_prototype_keys = {} \<Longrightarrow>
   getSSHConfig_loop e path hosts sshFile = Ok (hosts @ declared_hosts sshFile)"
proof (induction sshFile arbitrary: hosts)
  case Nil
  then show ?case by simp
next
  case (Cons l sshFile)
  show ?case
  proof (cases l)
    case (Comment c)
    with Cons show ?thesis by (simp add: well_formed_def)
  next
    case (Directive p v c)
    from Cons.prems(1) Directive obtain h cfg where v: "v = Str h" and c: "c = Some cfg"
      and p: "p = js ''Host''" and sv: "list_all string_valued cfg"
      and hn: "declared cfg (js ''HostName'') \<noteq> None" and us: "declared cfg (js ''User'') \<noteq> None"
      by (cases v; cases c) (auto simp: well_formed_def)
    have kv: "keyValues_loop e path h Map.empty cfg = Ok (declared cfg)"
      using keyValues_loop_declared[OF sv, of e path h Map.empty] by simp
    obtain data where data: "SSHConfigSectionSchema_safeParse (declared cfg) = Some data"
      using safeParse_Some_iff[of "declared cfg"] hn us by auto
    have nin: "\<not> js_in h hosts"
      using Cons.prems(2,3) Directive v p by (auto simp: js_in_def)
    have "getSSHConfig_loop e path (hosts @ [(h, data)]) sshFile = Ok ((hosts @ [(h, data)]) @ declared_hosts sshFile)"
      using Cons.prems Directive v p by (intro Cons.IH) (auto simp: well_formed_def)
    then show ?thesis
      using Directive v c p kv data nin by (simp add: Let_def)
  qed
qed


lemma getSSHConfig_parsed:
  assumes "fs_exists e (expandTilde e sshConfigPathPartial)"
    and "fs_readFile e (expandTilde e sshConfigPathPartial) = Inr content"
    and "SSHConfig_parse e content = Inr sshFile"
  shows "getSSHConfig e sshConfigPathPartial =
         getSSHConfig_loop e (expandTilde e sshConfigPathPartial) [] sshFile"
  using assms by (simp add: getSSHConfig_def Let_def)

lemma stanza_alias:
  "Directive (js ''Host'') (Str h) c \<in> set sshFile \<Longrightarrow> h \<in> set (hostAliases sshFile)"
proof (induction sshFile)
  case Nil
  then show ?case by simp
next
  case (Cons l sshFile)
  then show ?case
    by (cases l) (auto split: jsvalue.splits)
qed

lemma declared_hosts_lookup:
  "well_formed sshFile \<Longrightarrow> distinct (hostAliases sshFile) \<Longrightarrow>
   Directive (js ''Host'') (Str h) (Some cfg) \<in> set sshFile \<Longrightarrow>
   map_of (declared_hosts sshFile) h = SSHConfigSectionSchema_safeParse (declared cfg)"
proof (induction sshFile)
  case Nil
  then show ?case by simp
next
  case (Cons l sshFile)
  show ?case
  proof (cases l)
    case (Comment c)
    with Cons show ?thesis by (simp add: well_formed_def)
  next
    case (Directive p v c)
    from Cons.prems(1) Directive obtain h' cfg' where v: "v = Str h'" and c: "c = Some cfg'"
      and p: "p = js ''Host''"
      and hn: "declared cfg' (js ''HostName'') \<noteq> None" and us: "declared cfg' (js ''User'') \<noteq> None"
      by (cases v; cases c) (auto simp: well_formed_def)
    obtain data where data: "SSHConfigSectionSchema_safeParse (declared cfg') = Some data"
      using safeParse_Some_iff[of "declared cfg'"] hn us by auto
    show ?thesis
    proof (cases "Directive (js ''Host'') (Str h) (Some cfg) = l")
      case True
      then show ?thesis using Directive v c p data by simp
    next
      case False
      then have mem: "Directive (js ''Host'') (Str h) (Some cfg) \<in> set sshFile"
        using Cons.prems(3) by simp
      then have "h \<in> set (hostAliases sshFile)" by (rule stanza_alias)
      then have "h \<noteq> h'" using Cons.prems(2) Directive v p by auto
      moreover have "map_of (declared_hosts sshFile) h = SSHConfigSectionSchema_safeParse (declared cfg)"
        using Cons.prems Directive v p mem by (intro Cons.IH) (auto simp: well_formed_def)
      ultimately show ?thesis using Directive v c p data by simp
    qed
  qed
qed

lemma safeParse_fields:
  "SSHConfigSectionSchema_safeParse kv = Some data \<Longrightarrow>
   kv (js ''HostName'') = Some (HostName data) \<and> kv (js ''User'') = Some (User data) \<and>
   kv (js ''IdentityFile'') = IdentityFile data"
  by (auto simp: SSHConfigSectionSchema_safeParse_def split: option.splits)

text \<open>
  C4, as the claim states it, fails: the parser returns the first error it meets. In a
  document whose first \<open>Host work\<close> stanza has no \<open>HostName\<close> and which declares
  \<open>work\<close> again, the result is \<open>MalformedError\<close> for the first stanza, not the
  duplicate-host error.
\<close>

theorem getSSHConfig_malformed_first_counterexample:
  "\<not> distinct (hostAliases malformed_first_sshFile) \<and>
   getSSHConfig (config_env malformed_first_sshFile) default_sshConfigPathPartial =
     Err' MalformedError (js ''malformed section at Host 'work' due to Required'')"
  by code_simp

text \<open>
  C4, amended: a document that declares a host alias a second time is never parsed
  successfully. When the lines before the second declaration parse without error on their
  own, the result is \<open>DuplicateHostError\<close> with a reason that names the alias, whatever
  follows. Otherwise the result is the error of the first rejected line among them: the
  error that parsing those lines alone gives.
\<close>

theorem getSSHConfig_duplicate:
  assumes "fs_exists e (expandTilde e sshConfigPathPartial)"
    and "fs_readFile e (expandTilde e sshConfigPathPartial) = Inr content"
    and "SSHConfig_parse e content = Inr sshFile"
    and "sshFile = pre @ Directive (js ''Host'') (Str host) (Some cfg) # post"
    and "host \<in> set (hostAliases pre)"
  shows "(\<forall>hosts. getSSHConfig e sshConfigPathPartial \<noteq> Ok hosts) \<and>
         (\<forall>hosts. getSSHConfig_loop e (expandTilde e sshConfigPathPartial) [] pre = Ok hosts \<longrightarrow>
            getSSHConfig e sshConfigPathPartial =
              Err' DuplicateHostError
                (js ''ssh file '' @ [APOS] @ expandTilde e sshConfigPathPartial @ [APOS] @
                 js '' contains duplicate Hosts named '' @ [APOS] @ host @ [APOS])) \<and>
         (\<forall>error reason silent.
            getSSHConfig_loop e (expandTilde e sshConfigPathPartial) [] pre = Err error reason silent \<longrightarrow>
            getSSHConfig e sshConfigPathPartial = Err error reason silent)"
proof -
  let ?path = "expandTilde e sshConfigPathPartial"
  let ?dup = "Err' DuplicateHostError
                (js ''ssh file '' @ [APOS] @ ?path @ [APOS] @
                 js '' contains duplicate Hosts named '' @ [APOS] @ host @ [APOS])"
  note eq = getSSHConfig_parsed[OF assms(1-3)]
  have B: "getSSHConfig e sshConfigPathPartial = ?dup"
    if pre: "getSSHConfig_loop e ?path [] pre = Ok hosts" for hosts
  proof -
    from getSSHConfig_loop_Ok[OF pre] have "map fst hosts = hostAliases pre" by simp
    then have "js_in host hosts" using assms(5) by (simp add: js_in_def)
    then show ?thesis
      using eq pre unfolding assms(4) getSSHConfig_loop_append by (simp add: Let_def)
  qed
  have C: "getSSHConfig e sshConfigPathPartial = Err error reason silent"
    if "getSSHConfig_loop e ?path [] pre = Err error reason silent" for error reason silent
    using that eq unfolding assms(4) getSSHConfig_loop_append by simp
  have A: "getSSHConfig e sshConfigPathPartial \<noteq> Ok hosts" for hosts
  proof (cases "getSSHConfig_loop e ?path [] pre")
    case (Ok h)
    from B[OF this] show ?thesis by (simp add: Err'_def)
  next
    case (Err error reason silent)
    from C[OF this] show ?thesis by simp
  qed
  from A B C show ?thesis by blast
qed


theorem getSSHConfig_duplicate_witness:
  "getSSHConfig (config_env dup_sshFile) default_sshConfigPathPartial =
     Err' DuplicateHostError
       (js ''ssh file '/home/alice/.ssh/config' contains duplicate Hosts named 'work'' @ [APOS]) \<and>
   getSSHConfig (config_env malformed_first_sshFile) default_sshConfigPathPartial =
     Err' MalformedError (js ''malformed section at Host 'work' due to Required'')"
proof -
  let ?e = "config_env dup_sshFile"
  have h1: "fs_exists ?e (expandTilde ?e default_sshConfigPathPartial)"
    by (simp add: config_env_def example_env_def)
  have h2: "fs_readFile ?e (expandTilde ?e default_sshConfigPathPartial) = Inr (js ''# accounts'')"
    by code_simp
  have h3: "SSHConfig_parse ?e (js ''# accounts'') = Inr dup_sshFile"
    by (simp add: config_env_def)
  have h4: "dup_sshFile = example_sshFile @
      Directive (js ''Host'') (Str (js ''work''))
        (Some [Directive (js ''HostName'') (Str (js ''gitlab.com'')) None,
               Directive (js ''User'') (Str (js ''git'')) None]) # [Comment (js ''# end'')]"
    by (simp add: dup_sshFile_def)
  have h5: "js ''work'' \<in> set (hostAliases example_sshFile)" by code_simp
  have pre: "getSSHConfig_loop ?e (expandTilde ?e default_sshConfigPathPartial) [] example_sshFile =
             Ok example_hosts"
    by code_simp
  have r: "js ''ssh file '' @ [APOS] @ expandTilde ?e default_sshConfigPathPartial @ [APOS] @
                 js '' contains duplicate Hosts named '' @ [APOS] @ js ''work'' @ [APOS] =
           js ''ssh file '/home/alice/.ssh/config' contains duplicate Hosts named 'work'' @ [APOS]"
    by code_simp
  from getSSHConfig_duplicate[OF h1 h2 h3 h4 h5] pre
  have "getSSHConfig ?e default_sshConfigPathPartial =
     Err' DuplicateHostError
       (js ''ssh file '' @ [APOS] @ expandTilde ?e default_sshConfigPathPartial @ [APOS] @
        js '' contains duplicate Hosts named '' @ [APOS] @ js ''work'' @ [APOS])"
    by blast
  then have A: "getSSHConfig ?e default_sshConfigPathPartial =
     Err' DuplicateHostError
       (js ''ssh file '/home/alice/.ssh/config' contains duplicate Hosts named 'work'' @ [APOS])"
    unfolding r .
  let ?m = "config_env malformed_first_sshFile"
  let ?first = "Directive (js ''Host'') (Str (js ''work''))
        (Some [Directive (js ''User'') (Str (js ''git'')) None])"
  have m1: "fs_exists ?m (expandTilde ?m default_sshConfigPathPartial)"
    by (simp add: config_env_def example_env_def)
  have m2: "fs_readFile ?m (expandTilde ?m default_sshConfigPathPartial) = Inr (js ''# accounts'')"
    by code_simp
  have m3: "SSHConfig_parse ?m (js ''# accounts'') = Inr malformed_first_sshFile"
    by (simp add: config_env_def)
  have m4: "malformed_first_sshFile = [?first] @
      Directive (js ''Host'') (Str (js ''work''))
        (Some [Directive (js ''HostName'') (Str (js ''github.com'')) None,
               Directive (js ''User'') (Str (js ''git'')) None]) # []"
    by (simp add: malformed_first_sshFile_def)
  have m5: "js ''work'' \<in> set (hostAliases [?first])" by code_simp
  have mpre: "getSSHConfig_loop ?m (expandTilde ?m default_sshConfigPathPartial) [] [?first] =
             Err MalformedError (js ''malformed section at Host 'work' due to Required'') False"
    by code_simp
  from getSSHConfig_duplicate[OF m1 m2 m3 m4 m5] mpre
  have "getSSHConfig ?m default_sshConfigPathPartial =
          Err MalformedError (js ''malformed section at Host 'work' due to Required'') False"
    by blast
  then have B: "getSSHConfig ?m default_sshConfigPathPartial =
     Err' MalformedError (js ''malformed section at Host 'work' due to Required'')"
    by (simp add: Err'_def)
  from A B show ?thesis by simp
qed

text \<open>
  C7, as the claim states it, fails: a stanza keeps one value for each key, that of the last
  nested line with the key. The document below has unique aliases and string-valued nested
  keys including \<open>HostName\<close> and \<open>User\<close>, and declares \<open>HostName github.com\<close> and
  then \<open>HostName example.org\<close>; the mapping holds \<open>example.org\<close> only.
\<close>

theorem getSSHConfig_two_hostnames_counterexample:
  "well_formed two_hostnames_sshFile \<and> distinct (hostAliases two_hostnames_sshFile) \<and>
   getSSHConfig (config_env two_hostnames_sshFile) default_sshConfigPathPartial =
     Ok [(js ''work'', \<lparr>HostName = js ''example.org'', User = js ''git'', IdentityFile = None,
            AddKeysToAgent = None, IdentitiesOnly = None\<rparr>)]"
  by code_simp

text \<open>
  An alias that is a property name of \<open>Object.prototype\<close> makes \<open>host in hosts\<close> true
  on its first declaration.
\<close>

lemma getSSHConfig_constructor_alias:
  "well_formed constructor_sshFile \<and> distinct (hostAliases constructor_sshFile) \<and>
   getSSHConfig (config_env constructor_sshFile) default_sshConfigPathPartial =
     Err' DuplicateHostError
       (js ''ssh file '/home/alice/.ssh/config' contains duplicate Hosts named 'constructor'' @ [APOS])"
  by code_simp

text \<open>
  C7, amended: for every well-formed parsed document with unique host aliases, none of them
  a property name of \<open>Object.prototype\<close>, parsing succeeds; the mapping has exactly the
  declared aliases, and for each stanza its \<open>HostName\<close>, \<open>User\<close> and
  \<open>IdentityFile\<close> are the values of the last nested line with that key (the declared
  value, unchanged, when the key is given once). Whenever parsing returns a mapping, the
  document is well-formed with unique aliases and the mapping holds all of them: no failure
  returns a partial mapping.
\<close>

theorem getSSHConfig_lossless:
  assumes "fs_exists e (expandTilde e sshConfigPathPartial)"
    and "fs_readFile e (expandTilde e sshConfigPathPartial) = Inr content"
    and "SSHConfig_parse e content = Inr sshFile"
  shows "(well_formed sshFile \<and> distinct (hostAliases sshFile) \<and>
          set (hostAliases sshFile) \<inter> set Object_prototype_keys = {} \<longrightarrow>
            (\<exists>hosts. getSSHConfig e sshConfigPathPartial = Ok hosts \<and>
               map fst hosts = hostAliases sshFile \<and>
               (\<forall>h cfg. Directive (js ''Host'') (Str h) (Some cfg) \<in> set sshFile \<longrightarrow>
                  (\<exists>data. map_of hosts h = Some data \<and>
                     declared cfg (js ''HostName'') = Some (HostName data) \<and>
                     declared cfg (js ''User'') = Some (User data) \<and>
                     declared cfg (js ''IdentityFile'') = IdentityFile data)))) \<and>
         (\<forall>hosts. getSSHConfig e sshConfigPathPartial = Ok hosts \<longrightarrow>
            well_formed sshFile \<and> distinct (hostAliases sshFile) \<and>
            map fst hosts = hostAliases sshFile)"
proof (intro conjI impI allI)
  let ?path = "expandTilde e sshConfigPathPartial"
  note eq = getSSHConfig_parsed[OF assms]
  {
    assume wf: "well_formed sshFile \<and> distinct (hostAliases sshFile) \<and>
          set (hostAliases sshFile) \<inter> set Object_prototype_keys = {}"
    then have ok: "getSSHConfig e sshConfigPathPartial = Ok (declared_hosts sshFile)"
      using getSSHConfig_loop_well_formed[of sshFile "[]" e ?path] eq by simp
    then have "getSSHConfig_loop e ?path [] sshFile = Ok (declared_hosts sshFile)"
      using eq by simp
    from getSSHConfig_loop_Ok[OF this]
    have keys: "map fst (declared_hosts sshFile) = hostAliases sshFile" by simp
    have "\<exists>data. map_of (declared_hosts sshFile) h = Some data \<and>
                     declared cfg (js ''HostName'') = Some (HostName data) \<and>
                     declared cfg (js ''User'') = Some (User data) \<and>
                     declared cfg (js ''IdentityFile'') = IdentityFile data"
      if mem: "Directive (js ''Host'') (Str h) (Some cfg) \<in> set sshFile" for h cfg
    proof -
      have lk: "map_of (declared_hosts sshFile) h = SSHConfigSectionSchema_safeParse (declared cfg)"
        using wf mem by (intro declared_hosts_lookup) auto
      have "h \<in> set (map fst (declared_hosts sshFile))"
        using keys stanza_alias[OF mem] by simp
      then obtain data where d: "map_of (declared_hosts sshFile) h = Some data"
        by (metis map_of_eq_None_iff not_None_eq set_map)
      then have "SSHConfigSectionSchema_safeParse (declared cfg) = Some data"
        using lk by simp
      from safeParse_fields[OF this] d show ?thesis by blast
    qed
    with ok keys
    show "\<exists>hosts. getSSHConfig e sshConfigPathPartial = Ok hosts \<and>
               map fst hosts = hostAliases sshFile \<and>
               (\<forall>h cfg. Directive (js ''Host'') (Str h) (Some cfg) \<in> set sshFile \<longrightarrow>
                  (\<exists>data. map_of hosts h = Some data \<and>
                     declared cfg (js ''HostName'') = Some (HostName data) \<and>
                     declared cfg (js ''User'') = Some (User data) \<and>
                     declared cfg (js ''IdentityFile'') = IdentityFile data))"
      by blast
  }
  fix hosts
  assume "getSSHConfig e sshConfigPathPartial = Ok hosts"
  then have "getSSHConfig_loop e ?path [] sshFile = Ok hosts" using eq by simp
  from getSSHConfig_loop_Ok[OF this]
  show "well_formed sshFile" "distinct (hostAliases sshFile)" "map fst hosts = hostAliases sshFile"
    by simp_all
qed

theorem getSSHConfig_lossless_witness:
  "well_formed example_sshFile \<and> distinct (hostAliases example_sshFile) \<and>
   set (hostAliases example_sshFile) \<inter> set Object_prototype_keys = {} \<and>
   hostAliases example_sshFile = [js ''work'', js ''lab'', js ''personal''] \<and>
   map fst example_hosts = hostAliases example_sshFile \<and>
   map_of example_hosts (js ''personal'') =
     Some \<lparr>HostName = js ''github.com'', User = js ''git'',
           IdentityFile = Some (js ''~/.ssh/id_personal''), AddKeysToAgent = None,
           IdentitiesOnly = Some (js ''yes'')\<rparr>"
proof -
  have h1: "fs_exists example_env (expandTilde example_env default_sshConfigPathPartial)"
    by (simp add: example_env_def)
  have h2: "fs_readFile example_env (expandTilde example_env default_sshConfigPathPartial) =
            Inr (js ''# accounts'')"
    by code_simp
  have h3: "SSHConfig_parse example_env (js ''# accounts'') = Inr example_sshFile"
    by (simp add: example_env_def)
  have wf: "well_formed example_sshFile" by code_simp
  have al: "hostAliases example_sshFile = [js ''work'', js ''lab'', js ''personal'']" by code_simp
  have d: "distinct (hostAliases example_sshFile)" unfolding al by code_simp
  have np: "set (hostAliases example_sshFile) \<inter> set Object_prototype_keys = {}"
    unfolding al by code_simp
  have m: "map_of example_hosts (js ''personal'') =
     Some \<lparr>HostName = js ''github.com'', User = js ''git'',
           IdentityFile = Some (js ''~/.ssh/id_personal''), AddKeysToAgent = None,
           IdentitiesOnly = Some (js ''yes'')\<rparr>"
    by code_simp
  from getSSHConfig_lossless[OF h1 h2 h3] wf d np
  obtain hosts where "getSSHConfig example_env default_sshConfigPathPartial = Ok hosts"
    and "map fst hosts = hostAliases example_sshFile"
    by blast
  with ex_config have "map fst example_hosts = hostAliases example_sshFile" by simp
  with wf d np al m show ?thesis by simp
qed

end
